theory Spec2Isabelle
  imports Complex_Main "HOL-Library.Sublist" "HOL-Library.Multiset"
begin

section \<open>Author search: the merge engine of \<open>app/api/api_v1/authors.py\<close>\<close>

text \<open>
  The service works on Python dictionaries with the keys of the class \<open>AuthorResponse\<close>.
  A dictionary is modelled as a record with one field per key, typed as \<open>AuthorResponse\<close>
  declares it:
  \<^item> a scalar key (\<open>Optional[str]\<close>, \<open>Optional[int]\<close>) is an \<open>option\<close>; \<open>None\<close> stands
    for a missing key as well as for the Python value \<open>None\<close>, which \<open>dict.get\<close> does not
    tell apart;
  \<^item> a list key is a list; \<open>[]\<close> stands for a missing key as well as for an empty list,
    which the truth tests of the merge loop do not tell apart;
  \<^item> Python's unbounded \<open>int\<close> is \<open>int\<close>, \<open>str\<close> is \<open>string\<close> (ASCII);
  \<^item> the confidence score, a Python \<open>float\<close>, is an exact rational: every value the
    code adds is a multiple of 0.1 and the result is rounded to two decimals, so the
    float that Python returns is the double nearest to the rational computed here.
\<close>

subsection \<open>Python truth values\<close>

definition truthy_seq :: "'a list option \<Rightarrow> bool" where
  "truthy_seq v = (case v of None \<Rightarrow> False | Some s \<Rightarrow> s \<noteq> [])"

definition truthy_int :: "int option \<Rightarrow> bool" where
  "truthy_int v = (case v of None \<Rightarrow> False | Some n \<Rightarrow> n \<noteq> 0)"

text \<open>\<open>v or ""\<close> for an optional string \<open>v\<close>.\<close>

definition or_empty :: "string option \<Rightarrow> string" where
  "or_empty v = (if truthy_seq v then the v else [])"

subsection \<open>Data\<close>

record affiliation =
  institution_id :: "string option"
  institution_name :: "string option"
  country :: "string option"
  start_date :: "string option"
  end_date :: "string option"

record author_dict =
  author_id :: "string option"
  name :: "string option"
  orcid :: "string option"
  affiliations :: "affiliation list"
  homepage_url :: "string option"
  email :: "string option"
  h_index :: "int option"
  paper_count :: "int option"
  citation_count :: "int option"
  fields_of_study :: "string list"
  profile_image_url :: "string option"
  last_updated :: "string option"
  sources :: "string list"
  confidence_score :: "rat option"

text \<open>The empty dictionary \<open>{}\<close>.\<close>

definition empty_dict :: author_dict where
  "empty_dict = \<lparr>author_id = None, name = None, orcid = None, affiliations = [],
     homepage_url = None, email = None, h_index = None, paper_count = None,
     citation_count = None, fields_of_study = [], profile_image_url = None,
     last_updated = None, sources = [], confidence_score = None\<rparr>"

text \<open>
  The truth value of a dictionary: it has a key. A key that only holds \<open>None\<close> or \<open>[]\<close>
  is modelled as missing; the merge loop does nothing for such a key
  (lemma \<open>merge_step_empty\<close> below), so skipping that dictionary changes nothing.
\<close>

definition dict_nonempty :: "author_dict \<Rightarrow> bool" where
  "dict_nonempty r \<longleftrightarrow>
     author_id r \<noteq> None \<or> name r \<noteq> None \<or> orcid r \<noteq> None \<or> affiliations r \<noteq> [] \<or>
     homepage_url r \<noteq> None \<or> email r \<noteq> None \<or> h_index r \<noteq> None \<or>
     paper_count r \<noteq> None \<or> citation_count r \<noteq> None \<or> fields_of_study r \<noteq> [] \<or>
     profile_image_url r \<noteq> None \<or> last_updated r \<noteq> None \<or> sources r \<noteq> [] \<or>
     confidence_score r \<noteq> None"

text \<open>
  One entry of the list that \<open>asyncio.gather(..., return_exceptions=True)\<close> returns:
  the exception a task raised, or the dictionary it returned.
\<close>

datatype gathered = Raised | Returned author_dict

text \<open>\<open>valid_results = [r for r in results if isinstance(r, dict) and r]\<close>\<close>

fun valid_results :: "gathered list \<Rightarrow> author_dict list" where
  "valid_results [] = []"
| "valid_results (Raised # results) = valid_results results"
| "valid_results (Returned r # results) =
     (if dict_nonempty r then r # valid_results results else valid_results results)"

subsection \<open>\<open>_merge_author_data\<close>\<close>

text \<open>
  The state of the \<open>for result in valid_results\<close> loop: the dictionary \<open>merged\<close> and the
  three lists of collected counts. While the loop runs, \<open>merged["fields_of_study"]\<close> is a
  Python set; it is kept as a list without duplicates, \<open>set.update\<close> inserting the
  elements that are new.
\<close>

record merge_state =
  merged :: author_dict
  paper_counts :: "int list"
  citation_counts :: "int list"
  h_indices :: "int list"

definition set_update :: "'a list \<Rightarrow> 'a list \<Rightarrow> 'a list" where
  "set_update s xs = fold List.insert xs s"

definition append_int :: "int list \<Rightarrow> int option \<Rightarrow> int list" where
  "append_int xs v = (case v of Some n \<Rightarrow> xs @ [n] | None \<Rightarrow> xs)"

definition merge_step :: "author_dict \<Rightarrow> merge_state \<Rightarrow> merge_state" where
  "merge_step result st =
     (let m = merged st;
          m = m\<lparr>sources := sources m @ sources result\<rparr>;
          pcs = append_int (paper_counts st) (paper_count result);
          ccs = append_int (citation_counts st) (citation_count result);
          his = append_int (h_indices st) (h_index result);
          m = (if \<not> truthy_seq (author_id m) \<and> truthy_seq (author_id result)
               then m\<lparr>author_id := author_id result\<rparr> else m);
          m = (if \<not> truthy_seq (orcid m) \<and> truthy_seq (orcid result)
               then m\<lparr>orcid := orcid result\<rparr> else m);
          m = (if \<not> truthy_seq (homepage_url m) \<and> truthy_seq (homepage_url result)
               then m\<lparr>homepage_url := homepage_url result\<rparr> else m);
          m = (if \<not> truthy_seq (profile_image_url m) \<and> truthy_seq (profile_image_url result)
               then m\<lparr>profile_image_url := profile_image_url result\<rparr> else m);
          m = (if affiliations result \<noteq> []
               then m\<lparr>affiliations := affiliations m @ affiliations result\<rparr> else m);
          m = (if fields_of_study result \<noteq> []
               then m\<lparr>fields_of_study := set_update (fields_of_study m) (fields_of_study result)\<rparr>
               else m)
      in \<lparr>merged = m, paper_counts = pcs, citation_counts = ccs, h_indices = his\<rparr>)"

fun merge_loop :: "author_dict list \<Rightarrow> merge_state \<Rightarrow> merge_state" where
  "merge_loop [] st = st"
| "merge_loop (result # rest) st = merge_loop rest (merge_step result st)"

text \<open>
  \<open>max(xs)\<close>. The code calls it under \<open>if xs\<close> only, so the first equation is never
  used (Python raises \<open>ValueError\<close> there).
\<close>

fun py_max :: "int list \<Rightarrow> int" where
  "py_max [] = 0"
| "py_max [x] = x"
| "py_max (x # xs) = max x (py_max xs)"

text \<open>The key of the deduplication pass, and the pass itself.\<close>

definition aff_key :: "affiliation \<Rightarrow> string \<times> string \<times> string" where
  "aff_key aff = (or_empty (institution_id aff), or_empty (institution_name aff),
                  or_empty (country aff))"

fun dedup_loop :: "affiliation list \<Rightarrow> (string \<times> string \<times> string) set \<Rightarrow> affiliation list
    \<Rightarrow> affiliation list" where
  "dedup_loop [] seen dedup_affs = dedup_affs"
| "dedup_loop (aff # affs) seen dedup_affs =
     (let key = aff_key aff in
      if key \<in> seen then dedup_loop affs seen dedup_affs
      else dedup_loop affs (insert key seen) (dedup_affs @ [aff]))"

text \<open>
  The confidence score. \<open>score_sum\<close> is the value of the variable \<open>score\<close> after the last
  \<open>score += ...\<close>; the dictionary gets \<open>round(min(score, 1.0), 2)\<close>. Python rounds a tie to
  the even neighbour.
\<close>

definition profile_tags :: "string list" where
  "profile_tags = [''openalex'', ''semantic_scholar'', ''dblp'']"

definition score_sum :: "author_dict \<Rightarrow> rat" where
  "score_sum m =
     (let score = 0;
          profile_sources = remdups (filter (\<lambda>s. s \<in> set profile_tags) (sources m));
          score = score + 3 / 10 * of_nat (min (length profile_sources) 2);
          score = (if truthy_int (paper_count m) then score + 2 / 10 else score);
          score = (if truthy_int (citation_count m) then score + 2 / 10 else score);
          score = (if truthy_seq (orcid m) then score + 1 / 10 else score);
          score = (if truthy_int (h_index m) then score + 1 / 10 else score)
      in score)"

definition round_half_even :: "rat \<Rightarrow> int" where
  "round_half_even x =
     (let f = \<lfloor>x\<rfloor>; d = x - of_int f
      in if d < 1 / 2 then f else if 1 / 2 < d then f + 1 else if even f then f else f + 1)"

definition py_round2 :: "rat \<Rightarrow> rat" where
  "py_round2 x = of_int (round_half_even (x * 100)) / 100"

definition initial_merged :: "string \<Rightarrow> string \<Rightarrow> author_dict" where
  "initial_merged now nm =
     \<lparr>author_id = None, name = Some nm, orcid = None, affiliations = [],
      homepage_url = None, email = None, h_index = None, paper_count = Some 0,
      citation_count = Some 0, fields_of_study = [], profile_image_url = None,
      last_updated = Some now, sources = [], confidence_score = Some 0\<rparr>"

text \<open>
  \<open>now\<close> is the string \<open>datetime.now().isoformat()\<close> gives at the call. The working
  set of \<open>fields_of_study\<close> is already a list, so \<open>list(...)\<close> leaves it as it is;
  \<open>list({s for s in merged["sources"]})\<close> drops the repeated tags. Python fixes no order
  for the elements of a set, and no statement below depends on the order chosen here.
\<close>

definition merge_author_data :: "string \<Rightarrow> string \<Rightarrow> gathered list \<Rightarrow> author_dict" where
  "merge_author_data now nm results =
     (let st = merge_loop (valid_results results)
                 \<lparr>merged = initial_merged now nm, paper_counts = [], citation_counts = [],
                  h_indices = []\<rparr>;
          m = merged st;
          m = m\<lparr>paper_count := Some (if paper_counts st \<noteq> [] then py_max (paper_counts st) else 0)\<rparr>;
          m = m\<lparr>citation_count :=
                  Some (if citation_counts st \<noteq> [] then py_max (citation_counts st) else 0)\<rparr>;
          m = m\<lparr>h_index := (if h_indices st \<noteq> [] then Some (py_max (h_indices st)) else None)\<rparr>;
          m = (if affiliations m \<noteq> []
               then m\<lparr>affiliations := dedup_loop (affiliations m) {} []\<rparr> else m);
          m = m\<lparr>sources := remdups (sources m)\<rparr>
      in m\<lparr>confidence_score := Some (py_round2 (min (score_sum m) 1))\<rparr>)"

subsection \<open>Python strings\<close>

text \<open>
  \<open>s.split(sep)\<close> for a separator of one character; the result always has a last
  element, which is what \<open>s.split("/")[-1]\<close> reads.
\<close>

fun split_on :: "char \<Rightarrow> string \<Rightarrow> string list" where
  "split_on sep [] = [[]]"
| "split_on sep (c # s) =
     (if c = sep then [] # split_on sep s
      else (let rest = split_on sep s in (c # hd rest) # tl rest))"

definition is_digit_char :: "char \<Rightarrow> bool" where
  "is_digit_char c \<longleftrightarrow> (let n = (of_char c :: nat) in 48 \<le> n \<and> n \<le> 57)"

definition isdigit :: "string \<Rightarrow> bool" where
  "isdigit s \<longleftrightarrow> s \<noteq> [] \<and> list_all is_digit_char s"

definition lower_char :: "char \<Rightarrow> char" where
  "lower_char c = (let n = (of_char c :: nat) in if 65 \<le> n \<and> n \<le> 90 then char_of (n + 32) else c)"

definition is_space_char :: "char \<Rightarrow> bool" where
  "is_space_char c \<longleftrightarrow> (let n = (of_char c :: nat) in (9 \<le> n \<and> n \<le> 13) \<or> (28 \<le> n \<and> n \<le> 32))"

definition strip :: "string \<Rightarrow> string" where
  "strip s = rev (dropWhile is_space_char (rev (dropWhile is_space_char s)))"

subsection \<open>\<open>_normalize_identifiers\<close>\<close>

definition normalize_identifiers :: "author_dict \<Rightarrow> author_dict" where
  "normalize_identifiers data =
     (let out = data;
          aid = author_id out;
          out = (case aid of
                   Some a \<Rightarrow> if sublist ''openalex.org/'' a
                             then out\<lparr>author_id := Some (last (split_on CHR ''/'' a))\<rparr> else out
                 | None \<Rightarrow> out);
          oid = orcid out;
          out = (case oid of
                   Some v \<Rightarrow> if CHR ''/'' \<in> set v
                             then out\<lparr>orcid := Some (last (split_on CHR ''/'' v))\<rparr> else out
                 | None \<Rightarrow> out)
      in out)"

subsection \<open>\<open>_pick_best_name_match\<close>\<close>

text \<open>
  A candidate is the dictionary of one author in a provider's answer. Only the keys that
  hold names are read here; the rest of the dictionary is the record's extension.
  \<open>c_name\<close> is the key \<open>"name"\<close>.
\<close>

record candidate =
  c_name :: "string option"
  aliases :: "string list"
  display_name :: "string option"
  display_name_alternatives :: "string list"
  author :: "string option"

definition norm_name :: "string option \<Rightarrow> string" where
  "norm_name n = strip (filter (\<lambda>c. c \<noteq> CHR ''.'') (map lower_char (or_empty n)))"

text \<open>The list \<open>names\<close> of one candidate, after \<open>names = [n for n in names if n]\<close>.\<close>

definition names_of :: "bool \<Rightarrow> bool \<Rightarrow> bool \<Rightarrow> 'a candidate_scheme \<Rightarrow> string option list" where
  "names_of s2 openalex dblp c =
     (let names =
        (if s2 then c_name c # map Some (aliases c)
         else if openalex then display_name c # map Some (display_name_alternatives c)
         else if dblp then [if truthy_seq (author c) then author c else c_name c]
         else [c_name c])
      in filter truthy_seq names)"

definition exact_match :: "string \<Rightarrow> string option list \<Rightarrow> bool" where
  "exact_match t names = list_ex (\<lambda>n. norm_name n = t) names"

definition loose_match :: "string \<Rightarrow> string option list \<Rightarrow> bool" where
  "loose_match t names = list_ex (\<lambda>n. sublist t (norm_name n) \<or> sublist (norm_name n) t) names"

text \<open>The \<open>for c in candidates\<close> loop, with the variable \<open>best\<close>; \<open>break\<close> ends it.\<close>

fun pick_loop :: "string \<Rightarrow> bool \<Rightarrow> bool \<Rightarrow> bool \<Rightarrow> 'a candidate_scheme option
    \<Rightarrow> 'a candidate_scheme list \<Rightarrow> 'a candidate_scheme option" where
  "pick_loop t s2 openalex dblp best [] = best"
| "pick_loop t s2 openalex dblp best (c # cs) =
     (let names = names_of s2 openalex dblp c in
      if names = [] then pick_loop t s2 openalex dblp best cs
      else if exact_match t names then Some c
      else if best = None \<and> loose_match t names then pick_loop t s2 openalex dblp (Some c) cs
      else pick_loop t s2 openalex dblp best cs)"

text \<open>
  \<open>return best or (candidates[0] if candidates else None)\<close>. A candidate the loop stored
  in \<open>best\<close> has a name, so it is a dictionary with a key and \<open>best or ...\<close> returns it.
\<close>

definition pick_best_name_match :: "string \<Rightarrow> 'a candidate_scheme list \<Rightarrow> bool \<Rightarrow> bool \<Rightarrow> bool
    \<Rightarrow> 'a candidate_scheme option" where
  "pick_best_name_match target_name candidates s2 openalex dblp =
     (let t = norm_name (Some target_name);
          best = pick_loop t s2 openalex dblp None candidates
      in case best of
           Some c \<Rightarrow> Some c
         | None \<Rightarrow> (case candidates of [] \<Rightarrow> None | c # _ \<Rightarrow> Some c))"

subsection \<open>\<open>search_author\<close>\<close>

text \<open>
  What the service reads from outside: the results of the two \<open>asyncio.gather\<close> batches
  (three profile tasks, five fallback tasks, each in task order), the three detail
  lookups (\<open>None\<close> when the lookup fails) and the clock, \<open>clock w k\<close> being the time read
  by the call of \<open>_merge_author_data\<close> at the \<open>k\<close>-th call site.
\<close>

record world =
  profile_results :: "gathered list"
  fallback_results :: "gathered list"
  semantic_scholar_author_details :: "string \<Rightarrow> author_dict option"
  openalex_author_details :: "string \<Rightarrow> author_dict option"
  orcid_author_record :: "string \<Rightarrow> author_dict option"
  clock :: "nat \<Rightarrow> string"

datatype py_error = AttributeError

text \<open>\<open>if details:\<close> for an \<open>Optional[Dict]\<close>.\<close>

definition truthy_dict :: "author_dict option \<Rightarrow> bool" where
  "truthy_dict d = (case d of None \<Rightarrow> False | Some r \<Rightarrow> dict_nonempty r)"

text \<open>
  \<open>merged\<close> always has the key \<open>"author_id"\<close>, so \<open>merged_profile.get("author_id", "")\<close>
  returns the stored value, also when that value is \<open>None\<close>; \<open>None.isdigit()\<close> raises
  \<open>AttributeError\<close>. \<open>AuthorResponse(**merged_profile)\<close> keeps every key.
\<close>

definition search_author :: "world \<Rightarrow> string \<Rightarrow> py_error + author_dict" where
  "search_author w nm =
     (let results_profiles = profile_results w;
          results_fallbacks = fallback_results w;
          merged_profile = merge_author_data (clock w 0) nm (results_profiles @ results_fallbacks)
      in case author_id merged_profile of
           None \<Rightarrow> Inl AttributeError
         | Some a \<Rightarrow>
            (let s2_id = (if isdigit a then author_id merged_profile else None);
                 merged_profile =
                   (if truthy_seq s2_id then
                      (let s2_details = semantic_scholar_author_details w (the s2_id) in
                       if truthy_dict s2_details
                       then merge_author_data (clock w 1) nm
                              [Returned merged_profile, Returned (the s2_details)]
                       else merged_profile)
                    else merged_profile);
                 aid = or_empty (author_id merged_profile);
                 openalex_id =
                   (if sublist ''openalex.org'' aid \<or> (prefix ''A'' aid \<and> isdigit (drop 1 aid))
                    then Some (if CHR ''/'' \<in> set aid then last (split_on CHR ''/'' aid) else aid)
                    else None);
                 merged_profile =
                   (if truthy_seq openalex_id then
                      (let oa_details = openalex_author_details w (the openalex_id) in
                       if truthy_dict oa_details
                       then merge_author_data (clock w 2) nm
                              [Returned merged_profile, Returned (the oa_details)]
                       else merged_profile)
                    else merged_profile);
                 oid = orcid merged_profile;
                 merged_profile =
                   (if truthy_seq oid then
                      (let orcid_id = last (split_on CHR ''/'' (the oid));
                           orcid_details = orcid_author_record w orcid_id in
                       if truthy_dict orcid_details
                       then merge_author_data (clock w 3) nm
                              [Returned merged_profile, Returned (the orcid_details)]
                       else merged_profile)
                    else merged_profile);
                 merged_profile = normalize_identifiers merged_profile
             in Inr merged_profile))"

subsection \<open>Notions the statements use\<close>

text \<open>The values the dictionaries of a list supply for one key, in list order.\<close>

fun supplied :: "('r \<Rightarrow> 'a option) \<Rightarrow> 'r list \<Rightarrow> 'a list" where
  "supplied f [] = []"
| "supplied f (r # rs) = (case f r of None \<Rightarrow> supplied f rs | Some v \<Rightarrow> v # supplied f rs)"

text \<open>The first value of a key that is not \<open>None\<close>; the first that Python counts as true.\<close>

fun first_non_null :: "('r \<Rightarrow> 'a option) \<Rightarrow> 'r list \<Rightarrow> 'a option" where
  "first_non_null f [] = None"
| "first_non_null f (r # rs) = (case f r of None \<Rightarrow> first_non_null f rs | Some v \<Rightarrow> Some v)"

fun first_truthy :: "('r \<Rightarrow> 'a list option) \<Rightarrow> 'r list \<Rightarrow> 'a list option" where
  "first_truthy f [] = None"
| "first_truthy f (r # rs) = (if truthy_seq (f r) then f r else first_truthy f rs)"

subsection \<open>Concrete inputs\<close>

text \<open>
  Every fan-out call returns \<open>{}\<close> (the adapters return \<open>{}\<close> from their \<open>except\<close>
  branches and when a provider has no candidate), and every detail lookup fails.
\<close>

definition silent_world :: world where
  "silent_world =
     \<lparr>profile_results = [Returned empty_dict, Returned empty_dict, Returned empty_dict],
      fallback_results = [Returned empty_dict, Returned empty_dict, Returned empty_dict,
                          Returned empty_dict, Returned empty_dict],
      semantic_scholar_author_details = (\<lambda>_. None),
      openalex_author_details = (\<lambda>_. None),
      orcid_author_record = (\<lambda>_. None),
      clock = (\<lambda>_. ''2025-01-01T00:00:00'')\<rparr>"

text \<open>
  Two partial records: the first supplies an e-mail address and an empty home page, the
  second a home page.
\<close>

definition two_partials :: "gathered list" where
  "two_partials =
     [Returned (empty_dict\<lparr>homepage_url := Some [], email := Some ''ada@example.org'',
                           sources := [''openalex'']\<rparr>),
      Returned (empty_dict\<lparr>homepage_url := Some ''https://ada.example.org'',
                           sources := [''dblp'']\<rparr>)]"

text \<open>One provider reports an author with three papers and an h-index of 0; another, of 12.\<close>

definition h_index_zero :: "gathered list" where
  "h_index_zero =
     [Returned (empty_dict\<lparr>h_index := Some 0, paper_count := Some 3,
                           sources := [''semantic_scholar'']\<rparr>)]"

definition h_index_twelve :: "gathered list" where
  "h_index_twelve =
     [Returned (empty_dict\<lparr>h_index := Some 12, paper_count := Some 3,
                           sources := [''semantic_scholar'']\<rparr>)]"

text \<open>Two providers that count 10 and 15 papers, a failed task between them.\<close>

definition ten_papers :: gathered where
  "ten_papers = Returned (empty_dict\<lparr>author_id := Some ''123'', paper_count := Some 10,
                                      sources := [''semantic_scholar'']\<rparr>)"

definition fifteen_papers :: gathered where
  "fifteen_papers = Returned (empty_dict\<lparr>paper_count := Some 15, fields_of_study := [''AI''],
                                          sources := [''openalex'']\<rparr>)"

text \<open>The candidates of the name-matching example.\<close>

definition jane :: candidate where
  "jane = \<lparr>c_name = Some ''Jane Q. Public'', aliases = [], display_name = None,
           display_name_alternatives = [], author = None\<rparr>"

definition john :: candidate where
  "john = \<lparr>c_name = Some ''John Smith'', aliases = [], display_name = None,
           display_name_alternatives = [], author = None\<rparr>"

text \<open>A profile whose identifiers are URLs.\<close>

definition url_profile :: author_dict where
  "url_profile =
     empty_dict\<lparr>author_id := Some ''https://openalex.org/A5023888391'', name := Some ''Ada Example'',
                 orcid := Some ''https://orcid.org/0000-0001-2345-6789'', paper_count := Some 15,
                 sources := [''openalex'']\<rparr>"

text \<open>
  Two providers name the same institution, one of them with an empty country; a third
  entry differs in its country.
\<close>

definition mit :: affiliation where
  "mit = \<lparr>institution_id = None, institution_name = Some ''MIT'', country = None,
          start_date = None, end_date = None\<rparr>"

definition mit_since_2001 :: affiliation where
  "mit_since_2001 = \<lparr>institution_id = None, institution_name = Some ''MIT'', country = Some [],
          start_date = Some ''2001-01-01'', end_date = None\<rparr>"

definition mit_us :: affiliation where
  "mit_us = \<lparr>institution_id = None, institution_name = Some ''MIT'', country = Some ''US'',
          start_date = None, end_date = None\<rparr>"

definition same_institution :: "gathered list" where
  "same_institution =
     [Returned (empty_dict\<lparr>affiliations := [mit], sources := [''semantic_scholar'']\<rparr>),
      Returned (empty_dict\<lparr>affiliations := [mit_since_2001, mit_us], sources := [''orcid'']\<rparr>)]"

text \<open>A provider that only has a home page, and one that reports 0 for every numeric key.\<close>

definition no_counts :: "gathered list" where
  "no_counts =
     [Returned (empty_dict\<lparr>homepage_url := Some ''https://ada.example.org'',
                           sources := [''dblp'']\<rparr>)]"

definition zero_counts :: "gathered list" where
  "zero_counts =
     [Returned (empty_dict\<lparr>h_index := Some 0, paper_count := Some 0, citation_count := Some 0,
                           sources := [''semantic_scholar'']\<rparr>)]"

section \<open>The merge loop, key by key\<close>

lemma merge_step_empty: "\<not> dict_nonempty r \<Longrightarrow> merge_step r st = st"
  by (simp add: merge_step_def dict_nonempty_def Let_def append_int_def truthy_seq_def)

lemma step_paper_counts:
  "paper_counts (merge_step r st) = append_int (paper_counts st) (paper_count r)"
  by (simp add: merge_step_def Let_def)

lemma step_citation_counts:
  "citation_counts (merge_step r st) = append_int (citation_counts st) (citation_count r)"
  by (simp add: merge_step_def Let_def)

lemma step_h_indices:
  "h_indices (merge_step r st) = append_int (h_indices st) (h_index r)"
  by (simp add: merge_step_def Let_def)

lemma step_author_id: "author_id (merged (merge_step r st)) =
    (if truthy_seq (author_id (merged st)) then author_id (merged st)
     else if truthy_seq (author_id r) then author_id r else author_id (merged st))"
  by (simp add: merge_step_def Let_def)

lemma step_orcid: "orcid (merged (merge_step r st)) =
    (if truthy_seq (orcid (merged st)) then orcid (merged st)
     else if truthy_seq (orcid r) then orcid r else orcid (merged st))"
  by (simp add: merge_step_def Let_def)

lemma step_homepage_url: "homepage_url (merged (merge_step r st)) =
    (if truthy_seq (homepage_url (merged st)) then homepage_url (merged st)
     else if truthy_seq (homepage_url r) then homepage_url r else homepage_url (merged st))"
  by (simp add: merge_step_def Let_def)

lemma step_profile_image_url: "profile_image_url (merged (merge_step r st)) =
    (if truthy_seq (profile_image_url (merged st)) then profile_image_url (merged st)
     else if truthy_seq (profile_image_url r) then profile_image_url r
     else profile_image_url (merged st))"
  by (simp add: merge_step_def Let_def)

lemma step_email: "email (merged (merge_step r st)) = email (merged st)"
  by (simp add: merge_step_def Let_def)

lemma step_sources: "sources (merged (merge_step r st)) = sources (merged st) @ sources r"
  by (simp add: merge_step_def Let_def)

lemma step_affiliations:
  "affiliations (merged (merge_step r st)) = affiliations (merged st) @ affiliations r"
  by (simp add: merge_step_def Let_def)

lemma loop_paper_counts:
  "paper_counts (merge_loop rs st) = paper_counts st @ supplied paper_count rs"
  by (induction rs arbitrary: st)
     (simp_all add: step_paper_counts append_int_def split: option.splits)

lemma loop_citation_counts:
  "citation_counts (merge_loop rs st) = citation_counts st @ supplied citation_count rs"
  by (induction rs arbitrary: st)
     (simp_all add: step_citation_counts append_int_def split: option.splits)

lemma loop_h_indices:
  "h_indices (merge_loop rs st) = h_indices st @ supplied h_index rs"
  by (induction rs arbitrary: st)
     (simp_all add: step_h_indices append_int_def split: option.splits)

lemma loop_email: "email (merged (merge_loop rs st)) = email (merged st)"
  by (induction rs arbitrary: st) (simp_all add: step_email)

lemma loop_sources:
  "sources (merged (merge_loop rs st)) = sources (merged st) @ concat (map sources rs)"
  by (induction rs arbitrary: st) (simp_all add: step_sources)

lemma loop_affiliations:
  "affiliations (merged (merge_loop rs st)) =
   affiliations (merged st) @ concat (map affiliations rs)"
  by (induction rs arbitrary: st) (simp_all add: step_affiliations)

lemma first_truthy_None: "\<not> truthy_seq (first_truthy f rs) \<Longrightarrow> first_truthy f rs = None"
  by (induction rs) (auto split: if_splits)

text \<open>
  A key that the loop fills when it is still false and the record has a true value ends
  as the first true value, unless it was true before the loop.
\<close>

lemma loop_first_truthy:
  assumes step: "\<And>r st. g (merged (merge_step r st)) =
    (if truthy_seq (g (merged st)) then g (merged st)
     else if truthy_seq (g r) then g r else g (merged st))"
  shows "g (merged (merge_loop rs st)) =
    (if truthy_seq (g (merged st)) then g (merged st)
     else if truthy_seq (first_truthy g rs) then first_truthy g rs else g (merged st))"
proof (induction rs arbitrary: st)
  case Nil
  then show ?case by (simp add: truthy_seq_def)
next
  case (Cons r rs)
  show ?case
    unfolding merge_loop.simps Cons.IH step by (auto simp: truthy_seq_def)
qed

lemma loop_from_None:
  assumes step: "\<And>r st. g (merged (merge_step r st)) =
    (if truthy_seq (g (merged st)) then g (merged st)
     else if truthy_seq (g r) then g r else g (merged st))"
    and init: "g (merged st) = None"
  shows "g (merged (merge_loop rs st)) = first_truthy g rs"
proof (cases "truthy_seq (first_truthy g rs)")
  case True
  then show ?thesis
    unfolding loop_first_truthy [of g, OF step] init by (simp add: truthy_seq_def)
next
  case False
  from first_truthy_None [OF False] show ?thesis
    unfolding loop_first_truthy [of g, OF step] init by (simp add: truthy_seq_def)
qed

section \<open>The merged dictionary, key by key\<close>

lemma merge_email: "email (merge_author_data now nm results) = None"
  unfolding merge_author_data_def Let_def by (simp add: initial_merged_def loop_email)

lemma merge_author_id:
  "author_id (merge_author_data now nm results) = first_truthy author_id (valid_results results)"
  unfolding merge_author_data_def Let_def
  by (simp add: loop_from_None [of author_id, OF step_author_id] initial_merged_def)

lemma merge_orcid:
  "orcid (merge_author_data now nm results) = first_truthy orcid (valid_results results)"
  unfolding merge_author_data_def Let_def
  by (simp add: loop_from_None [of orcid, OF step_orcid] initial_merged_def)

lemma merge_homepage_url:
  "homepage_url (merge_author_data now nm results) =
   first_truthy homepage_url (valid_results results)"
  unfolding merge_author_data_def Let_def
  by (simp add: loop_from_None [of homepage_url, OF step_homepage_url] initial_merged_def)

lemma merge_profile_image_url:
  "profile_image_url (merge_author_data now nm results) =
   first_truthy profile_image_url (valid_results results)"
  unfolding merge_author_data_def Let_def
  by (simp add: loop_from_None [of profile_image_url, OF step_profile_image_url]
      initial_merged_def)

lemma merge_paper_count:
  "paper_count (merge_author_data now nm results) =
   Some (if supplied paper_count (valid_results results) \<noteq> []
         then py_max (supplied paper_count (valid_results results)) else 0)"
  unfolding merge_author_data_def Let_def by (simp add: loop_paper_counts)

lemma merge_citation_count:
  "citation_count (merge_author_data now nm results) =
   Some (if supplied citation_count (valid_results results) \<noteq> []
         then py_max (supplied citation_count (valid_results results)) else 0)"
  unfolding merge_author_data_def Let_def by (simp add: loop_citation_counts)

lemma merge_h_index:
  "h_index (merge_author_data now nm results) =
   (if supplied h_index (valid_results results) \<noteq> []
    then Some (py_max (supplied h_index (valid_results results))) else None)"
  unfolding merge_author_data_def Let_def by (simp add: loop_h_indices)

lemma merge_sources:
  "sources (merge_author_data now nm results) =
   remdups (concat (map sources (valid_results results)))"
  unfolding merge_author_data_def Let_def by (simp add: initial_merged_def loop_sources)

lemma merge_affiliations:
  "affiliations (merge_author_data now nm results) =
   dedup_loop (concat (map affiliations (valid_results results))) {} []"
proof -
  define a where "a = concat (map affiliations (valid_results results))"
  have "affiliations (merge_author_data now nm results) =
        (if a \<noteq> [] then dedup_loop a {} [] else a)"
    unfolding merge_author_data_def Let_def a_def
    by (simp add: initial_merged_def loop_affiliations del: concat_eq_Nil_conv)
  then have "affiliations (merge_author_data now nm results) = dedup_loop a {} []"
    by (cases "a = []") simp_all
  then show ?thesis unfolding a_def .
qed

lemma score_sum_confidence: "score_sum (m\<lparr>confidence_score := c\<rparr>) = score_sum m"
  by (simp add: score_sum_def)

lemma merge_confidence:
  "confidence_score (merge_author_data now nm results) =
   Some (py_round2 (min (score_sum (merge_author_data now nm results)) 1))"
  unfolding merge_author_data_def Let_def by (simp add: score_sum_confidence)

section \<open>Maxima and permutations\<close>

lemma py_max_Max: "xs \<noteq> [] \<Longrightarrow> py_max xs = Max (set xs)"
  by (induction xs rule: py_max.induct) auto

lemma valid_results_concat:
  "valid_results results =
   concat (map (\<lambda>g. case g of Raised \<Rightarrow> []
                     | Returned r \<Rightarrow> if dict_nonempty r then [r] else []) results)"
  by (induction results rule: valid_results.induct) simp_all

lemma supplied_concat:
  "supplied f rs = concat (map (\<lambda>r. case f r of None \<Rightarrow> [] | Some v \<Rightarrow> [v]) rs)"
  by (induction rs) (simp_all split: option.splits)

lemma set_supplied_perm:
  assumes "mset results = mset results'"
  shows "set (supplied f (valid_results results)) = set (supplied f (valid_results results'))"
proof -
  from assms have "set results = set results'" by (rule mset_eq_setD)
  then have "set (valid_results results) = set (valid_results results')"
    unfolding valid_results_concat by simp
  then show ?thesis unfolding supplied_concat by simp
qed

lemma max_or_default_perm:
  assumes "set xs = set ys"
  shows "(if xs \<noteq> [] then py_max xs else d) = (if ys \<noteq> [] then py_max ys else d)"
proof (cases "xs = []")
  case True
  with assms have "ys = []" by simp
  with True show ?thesis by simp
next
  case False
  with assms have "ys \<noteq> []" by auto
  with False assms show ?thesis by (simp add: py_max_Max)
qed

section \<open>Deduplication\<close>

lemma dedup_loop_distinct:
  "distinct (map aff_key acc) \<Longrightarrow> aff_key ` set acc \<subseteq> seen \<Longrightarrow>
   distinct (map aff_key (dedup_loop affs seen acc))"
proof (induction affs arbitrary: seen acc)
  case Nil
  then show ?case by simp
next
  case (Cons aff affs)
  show ?case
  proof (cases "aff_key aff \<in> seen")
    case True
    with Cons show ?thesis by simp
  next
    case False
    with Cons.prems have "distinct (map aff_key (acc @ [aff]))"
      and "aff_key ` set (acc @ [aff]) \<subseteq> insert (aff_key aff) seen"
      by auto
    from Cons.IH [OF this] False show ?thesis by simp
  qed
qed

section \<open>The score\<close>

lemma score_sum_bounds: "0 \<le> score_sum m"
  by (simp add: score_sum_def Let_def)

lemma score_sum_zero:
  assumes "\<forall>t\<in>set (sources m). t \<notin> set profile_tags"
    and "paper_count m = Some 0" and "citation_count m = Some 0"
    and "orcid m = None" and "h_index m = None"
  shows "score_sum m = 0"
proof -
  from assms(1) have "filter (\<lambda>s. s \<in> set profile_tags) (sources m) = []"
    by (simp add: filter_empty_conv)
  with assms(2-) show ?thesis
    by (simp add: score_sum_def Let_def truthy_int_def truthy_seq_def)
qed

lemma round_half_even_bounds:
  assumes "0 \<le> x" "x \<le> of_int n"
  shows "0 \<le> round_half_even x \<and> round_half_even x \<le> n"
proof -
  have f0: "0 \<le> \<lfloor>x\<rfloor>" using assms(1) by simp
  have fn: "\<lfloor>x\<rfloor> \<le> n" using assms(2) by (simp add: floor_le_iff)
  show ?thesis
  proof (cases "x - of_int \<lfloor>x\<rfloor> < 1 / 2")
    case True
    with f0 fn show ?thesis by (simp add: round_half_even_def Let_def)
  next
    case False
    then have "of_int \<lfloor>x\<rfloor> < x" by linarith
    with assms(2) have "of_int \<lfloor>x\<rfloor> < (of_int n :: rat)" by linarith
    then have "\<lfloor>x\<rfloor> < n" by simp
    with f0 show ?thesis by (simp add: round_half_even_def Let_def)
  qed
qed

lemma py_round2_bounds:
  assumes "0 \<le> x" "x \<le> 1"
  shows "0 \<le> py_round2 x \<and> py_round2 x \<le> 1"
proof -
  from assms have "0 \<le> x * 100" "x * 100 \<le> of_int 100" by simp_all
  from round_half_even_bounds [OF this]
  have "0 \<le> round_half_even (x * 100)" "round_half_even (x * 100) \<le> 100" by simp_all
  then have "(0::rat) \<le> of_int (round_half_even (x * 100))"
    and "(of_int (round_half_even (x * 100)) :: rat) \<le> 100"
    by simp_all
  then show ?thesis by (simp add: py_round2_def)
qed

lemma py_round2_zero: "py_round2 0 = 0"
  by (simp add: py_round2_def round_half_even_def)

section \<open>Strings and identifiers\<close>

lemma split_on_not_Nil: "split_on sep s \<noteq> []"
  by (induction s) (simp_all add: Let_def)

lemma last_split_on_no_sep: "sep \<notin> set (last (split_on sep s))"
proof (induction s)
  case Nil
  then show ?case by simp
next
  case (Cons c s)
  obtain x xs where rest: "split_on sep s = x # xs"
    using split_on_not_Nil [of sep s] by (cases "split_on sep s") auto
  show ?case
  proof (cases "c = sep")
    case True
    with Cons rest show ?thesis by simp
  next
    case False
    with Cons rest show ?thesis by (cases xs) (simp_all add: Let_def)
  qed
qed

lemma no_slash_no_openalex: "CHR ''/'' \<notin> set a \<Longrightarrow> \<not> sublist ''openalex.org/'' a"
  using set_mono_sublist [of "''openalex.org/''" a] by auto

lemma normalize_author_id:
  "author_id (normalize_identifiers p) =
     (case author_id p of
        Some a \<Rightarrow> if sublist ''openalex.org/'' a then Some (last (split_on CHR ''/'' a)) else Some a
      | None \<Rightarrow> None)"
  by (simp add: normalize_identifiers_def Let_def split: option.splits)

lemma normalize_orcid:
  "orcid (normalize_identifiers p) =
     (case orcid p of
        Some v \<Rightarrow> if CHR ''/'' \<in> set v then Some (last (split_on CHR ''/'' v)) else Some v
      | None \<Rightarrow> None)"
  by (simp add: normalize_identifiers_def Let_def split: option.splits)

lemma normalize_as_update:
  "normalize_identifiers p =
     p\<lparr>author_id := author_id (normalize_identifiers p),
       orcid := orcid (normalize_identifiers p)\<rparr>"
  by (simp add: normalize_identifiers_def Let_def split: option.splits)

section \<open>Name matching\<close>

lemma no_exact_match_without_names: "\<not> exact_match t []"
  by (simp add: exact_match_def)

lemma no_loose_match_without_names: "\<not> loose_match t []"
  by (simp add: loose_match_def)

lemma pick_loop_find:
  "pick_loop t s2 openalex dblp best cs =
     (case find (\<lambda>c. exact_match t (names_of s2 openalex dblp c)) cs of
        Some c \<Rightarrow> Some c
      | None \<Rightarrow> (case best of
                   Some b \<Rightarrow> Some b
                 | None \<Rightarrow> find (\<lambda>c. loose_match t (names_of s2 openalex dblp c)) cs))"
proof (induction cs arbitrary: best)
  case Nil
  then show ?case by (simp split: option.splits)
next
  case (Cons c cs)
  show ?case
  proof (cases "names_of s2 openalex dblp c = []")
    case True
    then show ?thesis
      by (simp add: Cons.IH no_exact_match_without_names no_loose_match_without_names
          split: option.splits)
  next
    case False
    then show ?thesis by (auto simp: Cons.IH Let_def split: option.splits)
  qed
qed

lemma find_in_set: "find P xs = Some x \<Longrightarrow> x \<in> set xs"
  by (induction xs) (auto split: if_splits)

section \<open>The search without an author id\<close>

lemma search_author_without_author_id:
  assumes "first_truthy author_id (valid_results (profile_results w @ fallback_results w)) = None"
  shows "search_author w nm = Inl AttributeError"
  using assms by (simp add: search_author_def Let_def merge_author_id)

section \<open>The claims\<close>

subsection \<open>C1: every provider silent\<close>

text \<open>
  Claim C1 says that when every fan-out call fails or returns empty, \<open>search_author\<close>
  still returns a profile with no sources, zero counts, score 0.0 and no ORCID, and
  raises nothing. The primary merge does build that profile, but \<open>search_author\<close> then
  evaluates \<open>merged_profile.get("author_id", "").isdigit()\<close> on the stored \<open>None\<close> and
  raises \<open>AttributeError\<close>: for the query \<open>Ada Example\<close> with every adapter returning
  \<open>{}\<close> no profile is returned.
\<close>

theorem search_author_silent_world_raises:
  "merge_author_data (clock silent_world 0) ''Ada Example''
     (profile_results silent_world @ fallback_results silent_world) =
     \<lparr>author_id = None, name = Some ''Ada Example'', orcid = None, affiliations = [],
      homepage_url = None, email = None, h_index = None, paper_count = Some 0,
      citation_count = Some 0, fields_of_study = [], profile_image_url = None,
      last_updated = Some ''2025-01-01T00:00:00'', sources = [], confidence_score = Some 0\<rparr>
 \<and> search_author silent_world ''Ada Example'' = Inl AttributeError"
  by code_simp

subsection \<open>C2: identifiers and URLs\<close>

text \<open>
  Claim C2, as amended: over the dictionaries that pass the filter of
  \<open>_merge_author_data\<close>, in input order, each of \<open>author_id\<close>, \<open>orcid\<close>, \<open>homepage_url\<close>
  and \<open>profile_image_url\<close> of the merged profile is the first value supplied for that
  key that Python counts as true (not \<open>None\<close> and not the empty string), and \<open>None\<close> when
  there is no such value; \<open>email\<close> is not merged and stays \<open>None\<close>.
\<close>

theorem merge_first_truthy_wins:
  "author_id (merge_author_data now nm results) = first_truthy author_id (valid_results results)
 \<and> orcid (merge_author_data now nm results) = first_truthy orcid (valid_results results)
 \<and> homepage_url (merge_author_data now nm results) =
     first_truthy homepage_url (valid_results results)
 \<and> profile_image_url (merge_author_data now nm results) =
     first_truthy profile_image_url (valid_results results)
 \<and> email (merge_author_data now nm results) = None"
  by (simp only: merge_author_id merge_orcid merge_homepage_url merge_profile_image_url
      merge_email)

text \<open>
  On the two partial records of \<open>two_partials\<close> the merged home page is the second
  record's, and the merged \<open>email\<close> is \<open>None\<close>.
\<close>

theorem merge_first_truthy_wins_witness:
  "homepage_url (merge_author_data ''2025-01-01T00:00:00'' ''Ada Example'' two_partials) =
     Some ''https://ada.example.org''
 \<and> author_id (merge_author_data ''2025-01-01T00:00:00'' ''Ada Example'' two_partials) = None
 \<and> email (merge_author_data ''2025-01-01T00:00:00'' ''Ada Example'' two_partials) = None"
proof -
  have "first_truthy homepage_url (valid_results two_partials) = Some ''https://ada.example.org''"
    and "first_truthy author_id (valid_results two_partials) = None"
    by code_simp+
  with merge_first_truthy_wins [of "''2025-01-01T00:00:00''" "''Ada Example''" two_partials]
  show ?thesis by simp
qed

text \<open>
  Claim C2 as stated fails there: the first value of \<open>email\<close> that is not null is
  \<open>ada@example.org\<close> and the merged \<open>email\<close> is \<open>None\<close>; the first value of
  \<open>homepage_url\<close> that is not null is the empty string and the merged value is the
  second record's.
\<close>

theorem merge_first_non_null_counterexample:
  "first_non_null email (valid_results two_partials) = Some ''ada@example.org''
 \<and> email (merge_author_data ''2025-01-01T00:00:00'' ''Ada Example'' two_partials) = None
 \<and> first_non_null homepage_url (valid_results two_partials) = Some []
 \<and> homepage_url (merge_author_data ''2025-01-01T00:00:00'' ''Ada Example'' two_partials) =
     Some ''https://ada.example.org''"
  by code_simp

subsection \<open>C3: the h-index term of the score\<close>

text \<open>
  Claim C3, as amended: for every dictionary whose \<open>h_index\<close> is an integer other than 0,
  the sum the score is clamped from is 0.1 greater than for the same dictionary without
  \<open>h_index\<close>; when \<open>h_index\<close> is 0 the two sums are equal (\<open>if merged["h_index"]\<close> is a
  truth test, and 0 is false).
\<close>

theorem score_h_index_term:
  "(h_index m = Some h \<and> h \<noteq> 0 \<longrightarrow> score_sum m = score_sum (m\<lparr>h_index := None\<rparr>) + 1 / 10)
 \<and> (h_index m = Some 0 \<longrightarrow> score_sum m = score_sum (m\<lparr>h_index := None\<rparr>))"
  by (simp add: score_sum_def Let_def truthy_int_def)

text \<open>A merged profile with h-index 12: the term is there.\<close>

theorem score_h_index_term_witness:
  "h_index (merge_author_data ''2025-01-01T00:00:00'' ''Ada Example'' h_index_twelve) = Some 12
 \<and> score_sum (merge_author_data ''2025-01-01T00:00:00'' ''Ada Example'' h_index_twelve) =
     score_sum ((merge_author_data ''2025-01-01T00:00:00'' ''Ada Example'' h_index_twelve)
                  \<lparr>h_index := None\<rparr>) + 1 / 10"
proof -
  have "h_index (merge_author_data ''2025-01-01T00:00:00'' ''Ada Example'' h_index_twelve) = Some 12"
    by code_simp
  with score_h_index_term
    [of "merge_author_data ''2025-01-01T00:00:00'' ''Ada Example'' h_index_twelve" 12]
  show ?thesis by simp
qed

text \<open>
  Claim C3 as stated fails for an h-index of 0: the merged profile of \<open>h_index_zero\<close> has
  \<open>h_index = 0\<close>, and its sum is 0.5 with and without the key.
\<close>

theorem score_h_index_zero_counterexample:
  "h_index (merge_author_data ''2025-01-01T00:00:00'' ''Ada Example'' h_index_zero) = Some 0
 \<and> score_sum (merge_author_data ''2025-01-01T00:00:00'' ''Ada Example'' h_index_zero) = 1 / 2
 \<and> score_sum ((merge_author_data ''2025-01-01T00:00:00'' ''Ada Example'' h_index_zero)
                 \<lparr>h_index := None\<rparr>) = 1 / 2
 \<and> confidence_score (merge_author_data ''2025-01-01T00:00:00'' ''Ada Example'' h_index_zero) =
     Some (1 / 2)"
  by code_simp

subsection \<open>C4: counts are maxima\<close>

text \<open>
  Claim C4: for every list of results, when some valid partial record supplies an
  integer \<open>paper_count\<close>, the merged \<open>paper_count\<close> is the maximum of the supplied values
  (not their sum), and likewise for \<open>citation_count\<close> and \<open>h_index\<close>; and the three values
  are the same for every permutation of the list.
\<close>

theorem merge_counts_are_maxima:
  assumes "mset results = mset results'"
  shows "(supplied paper_count (valid_results results) \<noteq> [] \<longrightarrow>
            paper_count (merge_author_data now nm results) =
              Some (Max (set (supplied paper_count (valid_results results)))))
       \<and> (supplied citation_count (valid_results results) \<noteq> [] \<longrightarrow>
            citation_count (merge_author_data now nm results) =
              Some (Max (set (supplied citation_count (valid_results results)))))
       \<and> (supplied h_index (valid_results results) \<noteq> [] \<longrightarrow>
            h_index (merge_author_data now nm results) =
              Some (Max (set (supplied h_index (valid_results results)))))
       \<and> paper_count (merge_author_data now nm results') =
           paper_count (merge_author_data now nm results)
       \<and> citation_count (merge_author_data now nm results') =
           citation_count (merge_author_data now nm results)
       \<and> h_index (merge_author_data now nm results') =
           h_index (merge_author_data now nm results)"
proof -
  have p: "set (supplied paper_count (valid_results results)) =
           set (supplied paper_count (valid_results results'))"
    and c: "set (supplied citation_count (valid_results results)) =
            set (supplied citation_count (valid_results results'))"
    and h: "set (supplied h_index (valid_results results)) =
            set (supplied h_index (valid_results results'))"
    using assms by (rule set_supplied_perm)+
  have "paper_count (merge_author_data now nm results') =
        paper_count (merge_author_data now nm results)"
    unfolding merge_paper_count using max_or_default_perm [OF p, of 0] by simp
  moreover have "citation_count (merge_author_data now nm results') =
        citation_count (merge_author_data now nm results)"
    unfolding merge_citation_count using max_or_default_perm [OF c, of 0] by simp
  moreover have "h_index (merge_author_data now nm results') =
        h_index (merge_author_data now nm results)"
  proof (cases "supplied h_index (valid_results results) = []")
    case True
    with h have "supplied h_index (valid_results results') = []" by simp
    with True show ?thesis unfolding merge_h_index by simp
  next
    case False
    with h have "supplied h_index (valid_results results') \<noteq> []" by auto
    with False h show ?thesis unfolding merge_h_index by (simp add: py_max_Max)
  qed
  ultimately show ?thesis
    by (simp add: merge_paper_count merge_citation_count merge_h_index py_max_Max)
qed

text \<open>
  Providers counting 10 and 15 papers: the merged count is 15, not 25, in either order.
\<close>

theorem merge_counts_are_maxima_witness:
  "supplied paper_count (valid_results [ten_papers, Raised, fifteen_papers]) = [10, 15]
 \<and> paper_count (merge_author_data ''2025-01-01T00:00:00'' ''Ada Example''
                  [ten_papers, Raised, fifteen_papers]) = Some 15
 \<and> paper_count (merge_author_data ''2025-01-01T00:00:00'' ''Ada Example''
                  [fifteen_papers, ten_papers, Raised]) = Some 15"
proof -
  have m: "mset [ten_papers, Raised, fifteen_papers] = mset [fifteen_papers, ten_papers, Raised]"
    by simp
  have s: "supplied paper_count (valid_results [ten_papers, Raised, fifteen_papers]) = [10, 15]"
    by code_simp
  from merge_counts_are_maxima
    [OF m, of "''2025-01-01T00:00:00''" "''Ada Example''"] s
  show ?thesis by simp
qed

subsection \<open>C5: the name matcher\<close>

text \<open>
  Claim C5: \<open>_pick_best_name_match\<close> returns \<open>None\<close> exactly when the candidate list is
  empty; on a list that is not empty it returns a candidate of the list: the first one
  with a name equal to the target after normalisation if there is one, otherwise the
  first one with a name that contains the target or is contained in it, otherwise the
  first candidate.
\<close>

theorem pick_best_name_match_policy:
  "(pick_best_name_match target_name candidates s2 openalex dblp = None \<longleftrightarrow> candidates = [])
 \<and> (candidates \<noteq> [] \<longrightarrow>
      (\<exists>c\<in>set candidates.
         pick_best_name_match target_name candidates s2 openalex dblp = Some c))
 \<and> pick_best_name_match target_name candidates s2 openalex dblp =
     (case find (\<lambda>c. exact_match (norm_name (Some target_name)) (names_of s2 openalex dblp c))
             candidates of
        Some c \<Rightarrow> Some c
      | None \<Rightarrow>
         (case find (\<lambda>c. loose_match (norm_name (Some target_name)) (names_of s2 openalex dblp c))
                 candidates of
            Some c \<Rightarrow> Some c
          | None \<Rightarrow> (case candidates of [] \<Rightarrow> None | c # _ \<Rightarrow> Some c)))"
proof -
  let ?pick = "pick_best_name_match target_name candidates s2 openalex dblp"
  let ?t = "norm_name (Some target_name)"
  let ?exact = "find (\<lambda>c. exact_match ?t (names_of s2 openalex dblp c)) candidates"
  let ?loose = "find (\<lambda>c. loose_match ?t (names_of s2 openalex dblp c)) candidates"
  have eq: "?pick =
     (case ?exact of Some c \<Rightarrow> Some c
      | None \<Rightarrow> (case ?loose of Some c \<Rightarrow> Some c
                  | None \<Rightarrow> (case candidates of [] \<Rightarrow> None | c # _ \<Rightarrow> Some c)))"
    by (simp add: pick_best_name_match_def Let_def pick_loop_find split: option.splits)
  have mem: "\<exists>c\<in>set candidates. ?pick = Some c" if "candidates \<noteq> []"
  proof (cases ?exact)
    case (Some c)
    with eq find_in_set [OF Some] show ?thesis by auto
  next
    case None
    show ?thesis
    proof (cases ?loose)
      case (Some c)
      with eq None find_in_set [OF Some] show ?thesis by auto
    next
      case n: None
      from that obtain c cs where "candidates = c # cs" by (cases candidates) auto
      with eq None n show ?thesis by auto
    qed
  qed
  have "?pick = None \<longleftrightarrow> candidates = []"
  proof
    assume "?pick = None"
    with mem show "candidates = []" by fastforce
  next
    assume "candidates = []"
    then show "?pick = None" by (simp add: pick_best_name_match_def)
  qed
  with mem eq show ?thesis by blast
qed

text \<open>
  The example of the specification: among \<open>Jane Q. Public\<close> and \<open>John Smith\<close> the target
  \<open>jane q public\<close> picks the first; the target \<open>smith\<close> picks the second, by
  containment; the target \<open>ada\<close> matches nobody and picks the first.
\<close>

theorem pick_best_name_match_policy_witness:
  "pick_best_name_match ''jane q public'' [jane, john] False False False = Some jane
 \<and> pick_best_name_match ''smith'' [jane, john] False False False = Some john
 \<and> pick_best_name_match ''ada'' [jane, john] False False False = Some jane"
proof -
  have "find (\<lambda>c. exact_match (norm_name (Some ''jane q public'')) (names_of False False False c))
          [jane, john] = Some jane"
    by code_simp
  moreover have
    "find (\<lambda>c. exact_match (norm_name (Some ''smith'')) (names_of False False False c))
          [jane, john] = None"
    "find (\<lambda>c. loose_match (norm_name (Some ''smith'')) (names_of False False False c))
          [jane, john] = Some john"
    by code_simp+
  moreover have
    "find (\<lambda>c. exact_match (norm_name (Some ''ada'')) (names_of False False False c))
          [jane, john] = None"
    "find (\<lambda>c. loose_match (norm_name (Some ''ada'')) (names_of False False False c))
          [jane, john] = None"
    by code_simp+
  ultimately show ?thesis
    using pick_best_name_match_policy [of "''jane q public''" "[jane, john]" False False False]
      pick_best_name_match_policy [of "''smith''" "[jane, john]" False False False]
      pick_best_name_match_policy [of "''ada''" "[jane, john]" False False False]
    by simp
qed

subsection \<open>C6: normalising twice\<close>

text \<open>
  Claim C6: \<open>_normalize_identifiers\<close> is idempotent: normalising a normalised profile
  changes nothing.
\<close>

theorem normalize_idempotent:
  "normalize_identifiers (normalize_identifiers p) = normalize_identifiers p"
proof -
  let ?q = "normalize_identifiers p"
  have a: "author_id (normalize_identifiers ?q) = author_id ?q"
    by (simp add: normalize_author_id [of ?q] normalize_author_id [of p]
        no_slash_no_openalex last_split_on_no_sep split: option.splits)
  have b: "orcid (normalize_identifiers ?q) = orcid ?q"
    by (simp add: normalize_orcid [of ?q] normalize_orcid [of p]
        last_split_on_no_sep split: option.splits)
  have "normalize_identifiers ?q = ?q\<lparr>author_id := author_id ?q, orcid := orcid ?q\<rparr>"
    using normalize_as_update [of ?q] unfolding a b .
  then show ?thesis by simp
qed

text \<open>A profile with two URLs: the first pass strips both, the second finds nothing to do.\<close>

theorem normalize_idempotent_witness:
  "author_id (normalize_identifiers url_profile) = Some ''A5023888391''
 \<and> orcid (normalize_identifiers url_profile) = Some ''0000-0001-2345-6789''
 \<and> normalize_identifiers (normalize_identifiers url_profile) = normalize_identifiers url_profile"
proof -
  have "author_id (normalize_identifiers url_profile) = Some ''A5023888391''"
    and "orcid (normalize_identifiers url_profile) = Some ''0000-0001-2345-6789''"
    by code_simp+
  with normalize_idempotent [of url_profile] show ?thesis by simp
qed

subsection \<open>C7: the range of the score\<close>

text \<open>
  Claim C7: the confidence score of every merged profile lies between 0 and 1, and it is
  exactly 0 when the profile has no source among the three profile providers, zero
  \<open>paper_count\<close> and \<open>citation_count\<close>, no ORCID and no \<open>h_index\<close>.
\<close>

theorem merge_confidence_range:
  "\<exists>s. confidence_score (merge_author_data now nm results) = Some s \<and> 0 \<le> s \<and> s \<le> 1 \<and>
     ((\<forall>t\<in>set (sources (merge_author_data now nm results)). t \<notin> set profile_tags) \<and>
      paper_count (merge_author_data now nm results) = Some 0 \<and>
      citation_count (merge_author_data now nm results) = Some 0 \<and>
      orcid (merge_author_data now nm results) = None \<and>
      h_index (merge_author_data now nm results) = None \<longrightarrow> s = 0)"
proof -
  let ?m = "merge_author_data now nm results"
  let ?s = "py_round2 (min (score_sum ?m) 1)"
  have "0 \<le> min (score_sum ?m) 1" "min (score_sum ?m) 1 \<le> 1"
    using score_sum_bounds [of ?m] by simp_all
  from py_round2_bounds [OF this] have "0 \<le> ?s" "?s \<le> 1" by simp_all
  moreover have "?s = 0"
    if "(\<forall>t\<in>set (sources ?m). t \<notin> set profile_tags) \<and> paper_count ?m = Some 0 \<and>
        citation_count ?m = Some 0 \<and> orcid ?m = None \<and> h_index ?m = None"
    using that score_sum_zero [of ?m] by (simp add: py_round2_zero)
  ultimately show ?thesis using merge_confidence [of now nm results] by blast
qed

text \<open>
  A record of the identity registry alone (the tag \<open>orcid\<close> is not one of the three): the
  score is 0. Two profile providers, both counts, an ORCID and an h-index: the sum 1.2 is
  clamped to 1.
\<close>

theorem merge_confidence_range_witness:
  "confidence_score (merge_author_data ''2025-01-01T00:00:00'' ''Ada Example''
     [Returned (empty_dict\<lparr>sources := [''orcid'']\<rparr>)]) = Some 0
 \<and> confidence_score (merge_author_data ''2025-01-01T00:00:00'' ''Ada Example''
     [Returned (empty_dict\<lparr>orcid := Some ''0000-0001-2345-6789'', h_index := Some 12,
        paper_count := Some 10, citation_count := Some 40, sources := [''semantic_scholar'']\<rparr>),
      fifteen_papers]) = Some 1"
proof -
  let ?m = "merge_author_data ''2025-01-01T00:00:00'' ''Ada Example''
     [Returned (empty_dict\<lparr>sources := [''orcid'']\<rparr>)]"
  have "sources ?m = [''orcid'']" "paper_count ?m = Some 0" "citation_count ?m = Some 0"
    "orcid ?m = None" "h_index ?m = None"
    by code_simp+
  with merge_confidence_range [of "''2025-01-01T00:00:00''" "''Ada Example''"
      "[Returned (empty_dict\<lparr>sources := [''orcid'']\<rparr>)]"]
  have "confidence_score ?m = Some 0" by (auto simp: profile_tags_def)
  moreover have "confidence_score (merge_author_data ''2025-01-01T00:00:00'' ''Ada Example''
     [Returned (empty_dict\<lparr>orcid := Some ''0000-0001-2345-6789'', h_index := Some 12,
        paper_count := Some 10, citation_count := Some 40, sources := [''semantic_scholar'']\<rparr>),
      fifteen_papers]) = Some 1"
    by code_simp
  ultimately show ?thesis by simp
qed

subsection \<open>C8: affiliations without duplicates\<close>

text \<open>
  Claim C8: in the merged profile no two affiliations have the same triple of
  \<open>institution_id\<close>, \<open>institution_name\<close> and \<open>country\<close>, a missing value counting as the
  empty string.
\<close>

theorem merge_affiliations_distinct:
  "distinct (map aff_key (affiliations (merge_author_data now nm results)))"
  unfolding merge_affiliations by (rule dedup_loop_distinct) simp_all

text \<open>
  Of three entries for one institution, two with the same triple, the first of the two
  and the one with another country are kept.
\<close>

theorem merge_affiliations_distinct_witness:
  "affiliations (merge_author_data ''2025-01-01T00:00:00'' ''Ada Example'' same_institution) =
     [mit, mit_us]
 \<and> distinct (map aff_key [mit, mit_us])"
proof -
  have "affiliations (merge_author_data ''2025-01-01T00:00:00'' ''Ada Example'' same_institution) =
     [mit, mit_us]"
    by code_simp
  with merge_affiliations_distinct [of "''2025-01-01T00:00:00''" "''Ada Example''" same_institution]
  show ?thesis by simp
qed

subsection \<open>C9: what normalising leaves alone\<close>

text \<open>
  Claim C9: \<open>_normalize_identifiers\<close> changes at most \<open>author_id\<close> and \<open>orcid\<close>: every other
  key of the output has the value it has in the input, so putting the input's \<open>author_id\<close>
  and \<open>orcid\<close> back gives the input.
\<close>

theorem normalize_frame:
  "name (normalize_identifiers p) = name p
 \<and> affiliations (normalize_identifiers p) = affiliations p
 \<and> homepage_url (normalize_identifiers p) = homepage_url p
 \<and> email (normalize_identifiers p) = email p
 \<and> h_index (normalize_identifiers p) = h_index p
 \<and> paper_count (normalize_identifiers p) = paper_count p
 \<and> citation_count (normalize_identifiers p) = citation_count p
 \<and> fields_of_study (normalize_identifiers p) = fields_of_study p
 \<and> profile_image_url (normalize_identifiers p) = profile_image_url p
 \<and> last_updated (normalize_identifiers p) = last_updated p
 \<and> sources (normalize_identifiers p) = sources p
 \<and> confidence_score (normalize_identifiers p) = confidence_score p
 \<and> (normalize_identifiers p)\<lparr>author_id := author_id p, orcid := orcid p\<rparr> = p"
proof -
  obtain a b where "normalize_identifiers p = p\<lparr>author_id := a, orcid := b\<rparr>"
    using normalize_as_update [of p] by blast
  then show ?thesis by simp
qed

text \<open>On the profile with two URLs both identifiers change and nothing else does.\<close>

theorem normalize_frame_witness:
  "author_id (normalize_identifiers url_profile) \<noteq> author_id url_profile
 \<and> orcid (normalize_identifiers url_profile) \<noteq> orcid url_profile
 \<and> name (normalize_identifiers url_profile) = Some ''Ada Example''
 \<and> paper_count (normalize_identifiers url_profile) = Some 15
 \<and> sources (normalize_identifiers url_profile) = [''openalex'']
 \<and> (normalize_identifiers url_profile)
      \<lparr>author_id := author_id url_profile, orcid := orcid url_profile\<rparr> = url_profile"
proof -
  have "author_id (normalize_identifiers url_profile) \<noteq> author_id url_profile"
    and "orcid (normalize_identifiers url_profile) \<noteq> orcid url_profile"
    and "name url_profile = Some ''Ada Example''"
    and "paper_count url_profile = Some 15"
    and "sources url_profile = [''openalex'']"
    by code_simp+
  with normalize_frame [of url_profile] show ?thesis by simp
qed

subsection \<open>C10: the defaults of the numeric keys\<close>

text \<open>
  Claim C10: when no valid partial record supplies an integer for a numeric key, the
  merged \<open>paper_count\<close> and \<open>citation_count\<close> are the integer 0 and the merged \<open>h_index\<close> is
  \<open>None\<close>. The two counts are never \<open>None\<close>, so a reported 0 and no report look the same,
  while \<open>h_index\<close> is \<open>None\<close> exactly when no record reported one.
\<close>

theorem merge_numeric_defaults:
  "(supplied paper_count (valid_results results) = [] \<longrightarrow>
      paper_count (merge_author_data now nm results) = Some 0)
 \<and> (supplied citation_count (valid_results results) = [] \<longrightarrow>
      citation_count (merge_author_data now nm results) = Some 0)
 \<and> (h_index (merge_author_data now nm results) = None \<longleftrightarrow>
      supplied h_index (valid_results results) = [])
 \<and> paper_count (merge_author_data now nm results) \<noteq> None
 \<and> citation_count (merge_author_data now nm results) \<noteq> None"
  by (simp add: merge_paper_count merge_citation_count merge_h_index)

text \<open>
  A record with a home page only, and a record reporting 0 for all three keys: the counts
  are 0 in both merged profiles, \<open>h_index\<close> is \<open>None\<close> in the first and 0 in the second.
\<close>

theorem merge_numeric_defaults_witness:
  "paper_count (merge_author_data ''2025-01-01T00:00:00'' ''Ada Example'' no_counts) = Some 0
 \<and> citation_count (merge_author_data ''2025-01-01T00:00:00'' ''Ada Example'' no_counts) = Some 0
 \<and> h_index (merge_author_data ''2025-01-01T00:00:00'' ''Ada Example'' no_counts) = None
 \<and> paper_count (merge_author_data ''2025-01-01T00:00:00'' ''Ada Example'' zero_counts) = Some 0
 \<and> citation_count (merge_author_data ''2025-01-01T00:00:00'' ''Ada Example'' zero_counts) = Some 0
 \<and> h_index (merge_author_data ''2025-01-01T00:00:00'' ''Ada Example'' zero_counts) = Some 0"
proof -
  have "supplied paper_count (valid_results no_counts) = []"
    and "supplied citation_count (valid_results no_counts) = []"
    and "supplied h_index (valid_results no_counts) = []"
    by code_simp+
  moreover have
    "paper_count (merge_author_data ''2025-01-01T00:00:00'' ''Ada Example'' zero_counts) = Some 0"
    "citation_count (merge_author_data ''2025-01-01T00:00:00'' ''Ada Example'' zero_counts) = Some 0"
    "h_index (merge_author_data ''2025-01-01T00:00:00'' ''Ada Example'' zero_counts) = Some 0"
    by code_simp+
  ultimately show ?thesis
    using merge_numeric_defaults [of no_counts "''2025-01-01T00:00:00''" "''Ada Example''"]
    by simp
qed

end
